theory Spec2Isabelle
  imports Main "HOL-Library.Multiset" "HOL-Library.Char_ord" "HOL-Library.List_Lexorder"
begin

section \<open>The job entity of \<^verbatim>\<open>model/job/broker.go\<close>\<close>

text \<open>
  \<^verbatim>\<open>State\<close> is a Go string type with four named constants; any other string is a
  value of the type as well (\<^verbatim>\<open>WaitUntilDone\<close> converts an arbitrary string to it).
\<close>

type_synonym State = string

definition Queued :: State where "Queued = ''queued''"
definition Running :: State where "Running = ''running''"
definition Done :: State where "Done = ''done''"
definition Errored :: State where "Errored = ''errored''"

text \<open>
  A \<^verbatim>\<open>time.Time\<close> is an instant, here a number of nanoseconds; the zero time is 0.
  \<^verbatim>\<open>a.Before(b)\<close> is \<open>a < b\<close>.
\<close>

type_synonym Time = int

text \<open>
  The byte slices (\<^verbatim>\<open>Message\<close>, \<^verbatim>\<open>Event\<close>, \<^verbatim>\<open>Payload\<close>, all
  \<^verbatim>\<open>json.RawMessage\<close>) and the \<^verbatim>\<open>*JobOptions\<close> pointer are references into a memory:
  \<open>None\<close> is \<^verbatim>\<open>nil\<close>, \<open>Some a\<close> refers to the object at address \<open>a\<close>. A slice is
  taken to cover the whole of its backing array.
\<close>

type_synonym addr = nat
type_synonym slice = "addr option"

record JobOptions =
  MaxExecCount :: int
  Timeout :: int

text \<open>
  A \<^verbatim>\<open>JobRequest\<close> has fields named like those of a \<^verbatim>\<open>Job\<close>; it is declared first so that
  a plain field name is the job's and the request's is written \<open>JobRequest.WorkerType\<close>.
  \<^verbatim>\<open>Trigger\<close> is an interface declared elsewhere in the package.
\<close>

typedecl Trigger

record JobRequest =
  WorkerType :: string
  TriggerID :: string
  Trigger :: "Trigger option"
  Message :: slice
  Event :: slice
  Payload :: slice
  Manual :: bool
  Debounced :: bool
  ForwardLogs :: bool
  Options :: "addr option"

text \<open>What \<^verbatim>\<open>NewJob\<close> reads of a \<^verbatim>\<open>prefixer.Prefixer\<close>.\<close>

record Prefixer =
  DomainName :: string
  DBPrefix :: string

record Job =
  JobID :: string
  JobRev :: string
  Domain :: string
  Prefix :: string
  WorkerType :: string
  TriggerID :: string
  Message :: slice
  Event :: slice
  Payload :: slice
  Manual :: bool
  Debounced :: bool
  Options :: "addr option"
  State :: State
  QueuedAt :: Time
  StartedAt :: Time
  FinishedAt :: Time
  Error :: string
  ForwardLogs :: bool

section \<open>Listing: \<^verbatim>\<open>FilterByWorkerAndState\<close> and \<^verbatim>\<open>GetLastsJobs\<close>\<close>



text \<open>
  The loop of \<^verbatim>\<open>FilterByWorkerAndState\<close>: \<open>returned\<close> is the slice built so far. The
  length is compared with \<open>limit\<close> only right after an append.
\<close>

fun FilterLoop :: "Job list \<Rightarrow> string \<Rightarrow> State \<Rightarrow> int \<Rightarrow> Job list \<Rightarrow> Job list" where
  "FilterLoop [] workerType state limit returned = returned"
| "FilterLoop (j # jobs) workerType state limit returned =
     (if WorkerType j = workerType \<and> State j = state then
        (let returned' = returned @ [j] in
         if int (length returned') = limit then returned'
         else FilterLoop jobs workerType state limit returned')
      else FilterLoop jobs workerType state limit returned)"

definition FilterByWorkerAndState :: "Job list \<Rightarrow> string \<Rightarrow> State \<Rightarrow> int \<Rightarrow> Job list" where
  "FilterByWorkerAndState jobs workerType state limit = FilterLoop jobs workerType state limit []"



text \<open>The jobs of one worker type in one state.\<close>

definition matching :: "string \<Rightarrow> State \<Rightarrow> Job \<Rightarrow> bool" where
  "matching workerType state j = (WorkerType j = workerType \<and> State j = state)"

text \<open>A job for the concrete runs below.\<close>

definition mkJob :: "string \<Rightarrow> string \<Rightarrow> State \<Rightarrow> Time \<Rightarrow> Job" where
  "mkJob i w s t =
     \<lparr>JobID = i, JobRev = ''1-a'', Domain = ''alice.example'', Prefix = '''', WorkerType = w,
      TriggerID = '''', Message = None, Event = None, Payload = None, Manual = False,
      Debounced = False, Options = None, State = s, QueuedAt = t, StartedAt = 0,
      FinishedAt = 0, Error = '''', ForwardLogs = False\<rparr>"

section \<open>The job entity's operations\<close>

text \<open>
  \<^verbatim>\<open>NewJob\<close>. The clock read by \<^verbatim>\<open>time.Now()\<close> is the argument \<open>now\<close>. The fields the
  composite literal leaves out have Go's zero values. The slices and the options pointer
  of the request are copied as references. The function has no error result.
\<close>

definition NewJob :: "Prefixer \<Rightarrow> JobRequest \<Rightarrow> Time \<Rightarrow> Job" where
  "NewJob db req now =
     \<lparr>JobID = '''', JobRev = '''',
      Domain = DomainName db,
      Prefix = DBPrefix db,
      WorkerType = JobRequest.WorkerType req,
      TriggerID = JobRequest.TriggerID req,
      Message = JobRequest.Message req,
      Event = JobRequest.Event req,
      Payload = JobRequest.Payload req,
      Manual = JobRequest.Manual req,
      Debounced = JobRequest.Debounced req,
      Options = JobRequest.Options req,
      State = Queued,
      QueuedAt = now,
      StartedAt = 0, FinishedAt = 0, Error = '''',
      ForwardLogs = JobRequest.ForwardLogs req\<rparr>"

text \<open>
  The document store (package \<^verbatim>\<open>couchdb\<close>) is not among the sources: its three functions
  that \<^verbatim>\<open>Update\<close> and \<^verbatim>\<open>Create\<close> call are parameters. The store has a state \<open>'s\<close> and
  errors \<open>'e\<close>. It receives the job as a \<^verbatim>\<open>couchdb.Doc\<close>, so all it can change of the job
  is what \<^verbatim>\<open>SetID\<close> and \<^verbatim>\<open>SetRev\<close> change: \<open>UpdateDoc\<close> answers with an error or the new
  revision, \<open>CreateDoc\<close> with an error or the new identifier and revision.
\<close>

record ('e, 's) couchdb =
  UpdateDoc :: "'s \<Rightarrow> Job \<Rightarrow> ('e + string) \<times> 's"
  CreateDoc :: "'s \<Rightarrow> Job \<Rightarrow> ('e + string \<times> string) \<times> 's"
  IsNotFoundError :: "'e \<Rightarrow> bool"

text \<open>
  A method with the receiver \<^verbatim>\<open>j *Job\<close> and the result \<^verbatim>\<open>error\<close> gives the error
  (\<open>None\<close> is \<^verbatim>\<open>nil\<close>), the job as the call leaves it and the store as the call leaves it.
\<close>

definition Create :: "('e, 's) couchdb \<Rightarrow> Job \<Rightarrow> 's \<Rightarrow> 'e option \<times> Job \<times> 's" where
  "Create db j s =
     (case CreateDoc db s j of
        (Inl err, s') \<Rightarrow> (Some err, j, s')
      | (Inr (id', rev'), s') \<Rightarrow> (None, j\<lparr>JobID := id', JobRev := rev'\<rparr>, s'))"

definition Update :: "('e, 's) couchdb \<Rightarrow> Job \<Rightarrow> 's \<Rightarrow> 'e option \<times> Job \<times> 's" where
  "Update db j s =
     (case UpdateDoc db s j of
        (Inl err, s') \<Rightarrow>
          if IsNotFoundError db err then Create db (j\<lparr>JobID := '''', JobRev := ''''\<rparr>) s'
          else (Some err, j, s')
      | (Inr rev', s') \<Rightarrow> (None, j\<lparr>JobRev := rev'\<rparr>, s'))"

definition AckConsumed :: "('e, 's) couchdb \<Rightarrow> Time \<Rightarrow> Job \<Rightarrow> 's \<Rightarrow> 'e option \<times> Job \<times> 's" where
  "AckConsumed db now j s = Update db (j\<lparr>StartedAt := now, State := Running\<rparr>) s"

definition Ack :: "('e, 's) couchdb \<Rightarrow> Time \<Rightarrow> Job \<Rightarrow> 's \<Rightarrow> 'e option \<times> Job \<times> 's" where
  "Ack db now j s =
     Update db (j\<lparr>FinishedAt := now, State := Done, Event := None, Payload := None\<rparr>) s"

definition Nack :: "('e, 's) couchdb \<Rightarrow> Time \<Rightarrow> string \<Rightarrow> Job \<Rightarrow> 's \<Rightarrow> 'e option \<times> Job \<times> 's" where
  "Nack db now errorMessage j s =
     Update db (j\<lparr>FinishedAt := now, State := Errored, Error := errorMessage,
                  Event := None, Payload := None\<rparr>) s"

text \<open>
  Two stores agree on the jobs that satisfy \<open>P\<close> when they tell the same errors apart and
  answer every write of such a job alike, whatever state they are in. An operation whose
  outcome is the same with any two stores that agree on \<open>P\<close> hands the store only jobs
  that satisfy \<open>P\<close>.
\<close>

definition agree_on :: "(Job \<Rightarrow> bool) \<Rightarrow> ('e, 's) couchdb \<Rightarrow> ('e, 's) couchdb \<Rightarrow> bool" where
  "agree_on P db db' =
     (IsNotFoundError db = IsNotFoundError db' \<and>
      (\<forall>s d. P d \<longrightarrow> UpdateDoc db s d = UpdateDoc db' s d \<and> CreateDoc db s d = CreateDoc db' s d))"

definition terminal :: "State \<Rightarrow> Time \<Rightarrow> Job \<Rightarrow> bool" where
  "terminal state now d =
     (State d = state \<and> FinishedAt d = now \<and> Event d = None \<and> Payload d = None)"

text \<open>
  Stores for the concrete runs below. The state counts the documents written. \<open>storeA\<close>
  has lost the document \<open>''gone''\<close>, refuses the document \<open>''stale''\<close> with a conflict and
  creates documents under the identifier \<open>''fresh''\<close>; \<open>storeB\<close> is \<open>storeA\<close> except that it
  refuses every job that still carries an event or a payload.
\<close>

datatype couch_error = NotFound | Conflict | Forbidden

definition storeA :: "(couch_error, nat) couchdb" where
  "storeA =
     \<lparr>UpdateDoc = (\<lambda>s d. if JobID d = ''gone'' then (Inl NotFound, s)
                         else if JobID d = ''stale'' then (Inl Conflict, s)
                         else (Inr ''2-b'', Suc s)),
      CreateDoc = (\<lambda>s d. (Inr (''fresh'', ''1-a''), Suc s)),
      IsNotFoundError = (\<lambda>err. err = NotFound)\<rparr>"

definition storeB :: "(couch_error, nat) couchdb" where
  "storeB =
     \<lparr>UpdateDoc = (\<lambda>s d. if Event d \<noteq> None \<or> Payload d \<noteq> None then (Inl Forbidden, s)
                         else UpdateDoc storeA s d),
      CreateDoc = (\<lambda>s d. if Event d \<noteq> None \<or> Payload d \<noteq> None then (Inl Forbidden, s)
                         else CreateDoc storeA s d),
      IsNotFoundError = (\<lambda>err. err = NotFound)\<rparr>"

text \<open>
  \<open>storeC\<close> is \<open>storeA\<close> except that it cannot create a document either: the collection is
  missing and stays missing.
\<close>

definition storeC :: "(couch_error, nat) couchdb" where
  "storeC =
     \<lparr>UpdateDoc = UpdateDoc storeA,
      CreateDoc = (\<lambda>s d. (Inl NotFound, s)),
      IsNotFoundError = (\<lambda>err. err = NotFound)\<rparr>"

definition runningJob :: "string \<Rightarrow> Job" where
  "runningJob i =
     \<lparr>JobID = i, JobRev = ''1-a'', Domain = ''alice.example'', Prefix = '''',
      WorkerType = ''konnector'', TriggerID = ''t1'', Message = Some 1, Event = Some 2,
      Payload = Some 3, Manual = False, Debounced = False, Options = None, State = Running,
      QueuedAt = 10, StartedAt = 20, FinishedAt = 0, Error = '''', ForwardLogs = False\<rparr>"

definition exampleRequest :: JobRequest where
  "exampleRequest =
     \<lparr>JobRequest.WorkerType = ''konnector'', JobRequest.TriggerID = ''t1'',
      JobRequest.Trigger = None, JobRequest.Message = Some 1, JobRequest.Event = None,
      JobRequest.Payload = Some 3, JobRequest.Manual = True, JobRequest.Debounced = False,
      JobRequest.ForwardLogs = True, JobRequest.Options = Some 4\<rparr>"

section \<open>The whole history: \<^verbatim>\<open>GetAllJobs\<close>\<close>

record AllDocsRequest =
  Limit :: int
  StartKey :: string

text \<open>
  Modelled from the spec: \<^verbatim>\<open>couchdb.GetAllDocs\<close>, the store's paginated listing, is not
  among the sources. The spec has the history traversed by "identity-ordered pagination",
  the next page starting at "the cursor's prior key": a tenant's collection is the list
  \<open>docs\<close> of its job documents in ascending order of identifier, and a page holds the
  first \<open>Limit\<close> documents whose identifier is at or after \<open>StartKey\<close>. Identifiers are
  compared as strings; the empty start key of the first request is below every
  identifier. The listing is read while nothing writes to the collection.
\<close>

definition GetAllDocs :: "Job list \<Rightarrow> AllDocsRequest \<Rightarrow> 'e + Job list" where
  "GetAllDocs docs req =
     Inr (take (nat (Limit req)) (filter (\<lambda>d. StartKey req \<le> JobID d) docs))"

text \<open>
  The loop of \<^verbatim>\<open>GetAllJobs\<close>, with the variables \<open>startkey\<close> and \<open>finalJobs\<close> that live
  across its laps; \<open>fetch\<close> is \<^verbatim>\<open>couchdb.GetAllDocs\<close> applied to the tenant's collection.
  Nothing in the code bounds the number of laps, so the result is an option: \<open>None\<close> is a
  loop that never ends.
\<close>

partial_function (option) GetAllJobsLoop ::
  "(AllDocsRequest \<Rightarrow> 'e + Job list) \<Rightarrow> string \<Rightarrow> Job list \<Rightarrow> ('e + Job list) option" where
  "GetAllJobsLoop fetch startkey finalJobs =
     (case fetch \<lparr>Limit = 10001, StartKey = startkey\<rparr> of
        Inl err \<Rightarrow> Some (Inl err)
      | Inr jobs \<Rightarrow>
          if length jobs = 0 then Some (Inr finalJobs)
          else
            (let lastJob = last jobs;
                 jobs' = butlast jobs;
                 startkey' = JobID lastJob;
                 finalJobs' = finalJobs @ jobs'
             in if length jobs' = 0 then Some (Inr (finalJobs' @ [lastJob]))
                else GetAllJobsLoop fetch startkey' finalJobs'))"

definition GetAllJobs :: "(AllDocsRequest \<Rightarrow> 'e + Job list) \<Rightarrow> ('e + Job list) option" where
  "GetAllJobs fetch = GetAllJobsLoop fetch '''' []"

text \<open>A collection holds each identifier once, in ascending order.\<close>

definition collection :: "Job list \<Rightarrow> bool" where
  "collection docs = sorted_wrt (\<lambda>a b. JobID a < JobID b) docs"

section \<open>Waiting for a job: \<^verbatim>\<open>WaitUntilDone\<close>\<close>

text \<open>
  The document of a realtime event is an interface value. \<^verbatim>\<open>WaitUntilDone\<close> tells three
  dynamic types apart: the two JSON documents, whose field \<^verbatim>\<open>M\<close> maps names to values of
  any type, and \<^verbatim>\<open>*Job\<close>. Of a value of \<^verbatim>\<open>M\<close> only this matters: whether it is a string.
\<close>

datatype anyval = StringVal string | OtherVal

datatype Doc =
    CouchJSONDoc "string \<rightharpoonup> anyval"
  | RealtimeJSONDoc "string \<rightharpoonup> anyval"
  | JobDoc Job
  | OtherDoc

text \<open>
  \<^verbatim>\<open>stateStr, _ := doc.M["state"].(string)\<close>: the empty string when the key is missing or
  its value is not a string.
\<close>

definition state_of :: "(string \<rightharpoonup> anyval) \<Rightarrow> State" where
  "state_of M = (case M ''state'' of Some (StringVal stateStr) \<Rightarrow> stateStr | _ \<Rightarrow> '''')"

fun event_state :: "Doc \<Rightarrow> State" where
  "event_state (CouchJSONDoc M) = state_of M"
| "event_state (RealtimeJSONDoc M) = state_of M"
| "event_state (JobDoc doc) = State doc"
| "event_state OtherDoc = Queued"

text \<open>
  One \<^verbatim>\<open>select\<close> of the loop either receives an event from the subscription's channel or
  finds the timer fired. The loop consumes the outcomes of its selects in order; when
  they run out the loop is blocked for ever, which is \<open>None\<close>. An \<^verbatim>\<open>error\<close> is its message,
  \<open>None\<close> is \<^verbatim>\<open>nil\<close>.
\<close>

datatype selected = Received Doc | TimedOut

fun WaitLoop :: "selected list \<Rightarrow> string option option" where
  "WaitLoop [] = None"
| "WaitLoop (Received doc # rest) =
     (let state = event_state doc in
      if state = Done then Some None
      else if state = Errored then Some (Some ''The konnector failed on account deletion'')
      else WaitLoop rest)"
| "WaitLoop (TimedOut # rest) = Some None"

text \<open>
  Durations and arrival times are nanoseconds, as \<^verbatim>\<open>time.Duration\<close> is. The events reach
  the channel in the order of the list, each with the time since the timer was started
  at which it arrives. The loop handles an event as it arrives. A select receives the
  next event when it arrives before the timer fires, and finds the timer fired when the
  event arrives later. When the event arrives at the very time the timer fires both are
  ready and Go takes either: \<open>pick n\<close> tells whether the \<open>n\<close>-th select of the call takes
  the event then.
\<close>

definition Minute :: int where
  "Minute = 60 * 1000000000"

fun selects :: "int \<Rightarrow> (nat \<Rightarrow> bool) \<Rightarrow> nat \<Rightarrow> (int \<times> Doc) list \<Rightarrow> selected list" where
  "selects timeout pick n [] = [TimedOut]"
| "selects timeout pick n ((t, doc) # events) =
     (if t < timeout \<or> (t = timeout \<and> pick n)
      then Received doc # selects timeout pick (Suc n) events
      else [TimedOut])"

text \<open>
  \<open>watch\<close> is the result of \<^verbatim>\<open>sub.Watch\<close>, from the realtime hub that is not among the
  sources.
\<close>

definition WaitUntilDone ::
  "string option \<Rightarrow> (nat \<Rightarrow> bool) \<Rightarrow> (int \<times> Doc) list \<Rightarrow> string option option" where
  "WaitUntilDone watch pick events =
     (case watch of
        Some err \<Rightarrow> Some (Some err)
      | None \<Rightarrow> WaitLoop (selects (10 * Minute) pick 0 events))"

text \<open>
  What the claim calls an event that carries a state, said of the event itself and not
  through the code that reads it: a job in that state, or a JSON document whose member
  \<^verbatim>\<open>state\<close> is that string. An event is pending when it carries neither Done nor Errored.
\<close>

fun carries_state :: "Doc \<Rightarrow> State \<Rightarrow> bool" where
  "carries_state (JobDoc job) state = (State job = state)"
| "carries_state (CouchJSONDoc M) state = (M ''state'' = Some (StringVal state))"
| "carries_state (RealtimeJSONDoc M) state = (M ''state'' = Some (StringVal state))"
| "carries_state OtherDoc state = False"

definition pending :: "Doc \<Rightarrow> bool" where
  "pending doc = (\<not> carries_state doc Done \<and> \<not> carries_state doc Errored)"

section \<open>Copying a job: \<^verbatim>\<open>Clone\<close>\<close>

text \<open>
  The memory the references of a job point into: byte arrays and \<^verbatim>\<open>JobOptions\<close> structs
  by address. The addresses below \<open>brk\<close> are in use; an allocation takes the address
  \<open>brk\<close> and moves \<open>brk\<close> up, so a new object never shares its address with an older one.
\<close>

record memory =
  bytes_at :: "addr \<Rightarrow> string"
  options_at :: "addr \<Rightarrow> JobOptions"
  brk :: addr

text \<open>\<^verbatim>\<open>make([]byte, n)\<close>: a new array of \<open>n\<close> zero bytes.\<close>

definition make_bytes :: "memory \<Rightarrow> nat \<Rightarrow> addr \<times> memory" where
  "make_bytes h n =
     (brk h, h\<lparr>bytes_at := (bytes_at h)(brk h := replicate n (CHR 0x00)), brk := Suc (brk h)\<rparr>)"

text \<open>
  \<^verbatim>\<open>copy(dst, src)\<close> overwrites the first bytes of \<open>dst\<close> with those of \<open>src\<close>, as many as
  the shorter of the two holds.
\<close>

definition copy_bytes :: "memory \<Rightarrow> addr \<Rightarrow> addr \<Rightarrow> memory" where
  "copy_bytes h dst src =
     (let n = min (length (bytes_at h dst)) (length (bytes_at h src)) in
      h\<lparr>bytes_at := (bytes_at h)(dst := take n (bytes_at h src) @ drop n (bytes_at h dst))\<rparr>)"

text \<open>\<^verbatim>\<open>tmp := *j.Options\<close> with \<^verbatim>\<open>&tmp\<close> taken: a new struct holding a copy.\<close>

definition new_options :: "memory \<Rightarrow> JobOptions \<Rightarrow> addr \<times> memory" where
  "new_options h tmp =
     (brk h, h\<lparr>options_at := (options_at h)(brk h := tmp), brk := Suc (brk h)\<rparr>)"

text \<open>
  \<^verbatim>\<open>Clone\<close> has the receiver \<^verbatim>\<open>j *Job\<close> and assigns to fields of \<open>j\<close>: the model returns the
  clone, the receiver as the call leaves it, and the memory as the call leaves it. The
  three blocks for the byte slices assign the new array to \<^verbatim>\<open>j.Message\<close>,
  \<^verbatim>\<open>j.Event\<close> and \<^verbatim>\<open>j.Payload\<close>, not to the fields of \<open>cloned\<close>, which keeps the slices
  copied with \<^verbatim>\<open>cloned := *j\<close>.
\<close>

definition Clone :: "memory \<Rightarrow> Job \<Rightarrow> Job \<times> Job \<times> memory" where
  "Clone h j =
     (let cloned = j;
          (cloned, h) =
            (case Options j of
               None \<Rightarrow> (cloned, h)
             | Some p \<Rightarrow>
                 (let tmp = options_at h p;
                      (a, h) = new_options h tmp
                  in (cloned\<lparr>Options := Some a\<rparr>, h)));
          (j, h) =
            (case Message j of
               None \<Rightarrow> (j, h)
             | Some tmp \<Rightarrow>
                 (let (a, h) = make_bytes h (length (bytes_at h tmp));
                      j = j\<lparr>Message := Some a\<rparr>
                  in (j, copy_bytes h a tmp)));
          (j, h) =
            (case Event j of
               None \<Rightarrow> (j, h)
             | Some tmp \<Rightarrow>
                 (let (a, h) = make_bytes h (length (bytes_at h tmp));
                      j = j\<lparr>Event := Some a\<rparr>
                  in (j, copy_bytes h a tmp)));
          (j, h) =
            (case Payload j of
               None \<Rightarrow> (j, h)
             | Some tmp \<Rightarrow>
                 (let (a, h) = make_bytes h (length (bytes_at h tmp));
                      j = j\<lparr>Payload := Some a\<rparr>
                  in (j, copy_bytes h a tmp)))
      in (cloned, j, h))"

text \<open>
  The addresses a job's byte slices refer to, the value of a slice (\<open>None\<close> for
  \<^verbatim>\<open>nil\<close>), the value behind the options pointer, and the fields that are not references.
  A job lives in a memory when everything it refers to is in use there.
\<close>

definition blob_refs :: "Job \<Rightarrow> addr set" where
  "blob_refs j = set_option (Message j) \<union> set_option (Event j) \<union> set_option (Payload j)"

definition blob :: "memory \<Rightarrow> slice \<Rightarrow> string option" where
  "blob h sl = map_option (bytes_at h) sl"

definition options_value :: "memory \<Rightarrow> Job \<Rightarrow> JobOptions option" where
  "options_value h j = map_option (options_at h) (Options j)"

definition plain_fields :: "Job \<Rightarrow> Job" where
  "plain_fields j = j\<lparr>Message := None, Event := None, Payload := None, Options := None\<rparr>"

definition lives_in :: "Job \<Rightarrow> memory \<Rightarrow> bool" where
  "lives_in j h = (\<forall>a \<in> blob_refs j \<union> set_option (Options j). a < brk h)"

text \<open>A memory and a job in it, for the concrete run below.\<close>

definition exampleMemory :: memory where
  "exampleMemory =
     \<lparr>bytes_at = (\<lambda>a. if a = 1 then ''{\"to\":\"bob\"}'' else if a = 2 then ''{}'' else []),
      options_at = (\<lambda>a. \<lparr>MaxExecCount = 3, Timeout = 60\<rparr>),
      brk = 5\<rparr>"

definition exampleJob :: Job where
  "exampleJob = (mkJob ''j1'' ''sendmail'' Running 7)\<lparr>Message := Some 1, Event := Some 2, Options := Some 4\<rparr>"

section \<open>The message on the wire: \<^verbatim>\<open>NewMessage\<close> and \<^verbatim>\<open>Message.UnmarshalJSON\<close>\<close>

text \<open>
  Go's \<^verbatim>\<open>encoding/json\<close> is modelled on JSON values. A number is kept as its literal,
  an object as the list of its members in the order of the text.
\<close>

datatype json =
    JNull
  | JBool bool
  | JNumber string
  | JString string
  | JArray "json list"
  | JObject "(string \<times> json) list"

text \<open>
  A JSON text handed to \<^verbatim>\<open>encoding/json\<close>, and a \<^verbatim>\<open>json.RawMessage\<close>, is represented by
  what it spells: \<open>Some v\<close> for a JSON text of the value \<open>v\<close>, \<open>None\<close> for bytes that are no
  JSON text, among them \<^verbatim>\<open>nil\<close> and the empty slice. \<^verbatim>\<open>json.Marshal\<close> of a JSON value
  gives a text of that value; \<^verbatim>\<open>json.Unmarshal\<close> into a \<^verbatim>\<open>json.RawMessage\<close> gives the text
  back when it is one and a syntax error otherwise. The errors of the library are told
  apart by their kind only.
\<close>

type_synonym jsontext = "json option"

datatype json_error = SyntaxError | UnmarshalTypeError | CorruptInputError

definition json_Marshal :: "json \<Rightarrow> json_error + jsontext" where
  "json_Marshal v = Inr (Some v)"

definition json_Unmarshal_RawMessage :: "jsontext \<Rightarrow> json_error + jsontext" where
  "json_Unmarshal_RawMessage data =
     (case data of
        None \<Rightarrow> Inl SyntaxError
      | Some v \<Rightarrow> Inr (Some v))"

text \<open>
  The field \<^verbatim>\<open>Data []byte\<close> of the old representation is filled by the decoder byte by
  byte, so it is kept as bytes: \<^verbatim>\<open>nil\<close>, or a backing array with the length of the slice.
  A byte of the backing array beyond the length is one an earlier, longer value left
  there; where the backing array ends the memory is zero. What the bytes spell is asked
  of the parameter \<open>spells\<close>, which stands for the reader of \<^verbatim>\<open>encoding/json\<close>; no bytes
  at all spell nothing.
\<close>

datatype byteslice = NilByteSlice | ByteSlice string nat

fun bytes_of :: "byteslice \<Rightarrow> string option" where
  "bytes_of NilByteSlice = None"
| "bytes_of (ByteSlice backing n) = Some (take n backing)"

definition spelt :: "(string \<Rightarrow> json option) \<Rightarrow> string option \<Rightarrow> jsontext" where
  "spelt spells bytes =
     (case bytes of
        None \<Rightarrow> None
      | Some b \<Rightarrow> if b = [] then None else spells b)"

text \<open>
  The struct of the old representation,
  \<^verbatim>\<open>struct { Data []byte `json:"Data"`; Type string `json:"Type"` }\<close>, and its zero value.
\<close>

record envelope =
  Data :: byteslice
  Type :: string

definition zero_envelope :: envelope where
  "zero_envelope = \<lparr>Data = NilByteSlice, Type = ''''\<rparr>"

text \<open>
  A number goes into a byte when its literal is made of decimal digits only and its
  value is at most 255 (\<^verbatim>\<open>strconv.ParseUint\<close> and the overflow check).
\<close>

definition digit_value :: "char \<Rightarrow> nat option" where
  "digit_value c = map_of (zip ''0123456789'' [0, 1, 2, 3, 4, 5, 6, 7, 8, 9]) c"

fun digits_value :: "string \<Rightarrow> nat \<Rightarrow> nat option" where
  "digits_value [] acc = Some acc"
| "digits_value (c # cs) acc =
     (case digit_value c of
        None \<Rightarrow> None
      | Some d \<Rightarrow> digits_value cs (10 * acc + d))"

definition uint8 :: "string \<Rightarrow> char option" where
  "uint8 literal =
     (if literal = [] then None
      else case digits_value literal 0 of
             None \<Rightarrow> None
           | Some n \<Rightarrow> if n \<le> 255 then Some (char_of n) else None)"

text \<open>
  A JSON array decoded into the \<^verbatim>\<open>[]byte\<close>: element \<open>i\<close> goes into byte \<open>i\<close> of the slice
  the field holds, which is lengthened by one byte at a time as needed. A number is
  stored, \<^verbatim>\<open>null\<close> leaves the byte as it is, any other element is an error. In the end
  the slice has as many bytes as the array has elements; an empty array gives a new
  empty slice.
\<close>

fun store_elements :: "json list \<Rightarrow> nat \<Rightarrow> string \<Rightarrow> json_error + string" where
  "store_elements [] i backing = Inr backing"
| "store_elements (element # elements) i backing =
     (let backing = (if i < length backing then backing else backing @ [CHR 0x00]) in
      case element of
        JNull \<Rightarrow> store_elements elements (Suc i) backing
      | JNumber literal \<Rightarrow>
          (case uint8 literal of
             None \<Rightarrow> Inl UnmarshalTypeError
           | Some b \<Rightarrow> store_elements elements (Suc i) (backing[i := b]))
      | _ \<Rightarrow> Inl UnmarshalTypeError)"

definition decode_array :: "json list \<Rightarrow> byteslice \<Rightarrow> json_error + byteslice" where
  "decode_array elements v =
     (if elements = [] then Inr (ByteSlice [] 0)
      else
        case store_elements elements 0
               (case v of NilByteSlice \<Rightarrow> [] | ByteSlice backing n \<Rightarrow> backing) of
          Inl err \<Rightarrow> Inl err
        | Inr backing \<Rightarrow> Inr (ByteSlice backing (length elements)))"

text \<open>
  \<^verbatim>\<open>json.Unmarshal\<close> into the struct. A member of the object goes to the field whose name
  it has, whatever the case of its letters (the names \<^verbatim>\<open>Data\<close> and \<^verbatim>\<open>Type\<close> have no letter
  with a fold outside ASCII); the members are decoded in the order of the text, each
  into what the earlier ones left; other members are skipped. The \<^verbatim>\<open>[]byte\<close> field takes
  \<^verbatim>\<open>null\<close> (it becomes \<^verbatim>\<open>nil\<close>), a string, which is decoded as base64 into a new slice, or
  an array; the \<^verbatim>\<open>string\<close> field takes \<^verbatim>\<open>null\<close> (it keeps its value) or a string.
  Anything else is an error of \<^verbatim>\<open>json.Unmarshal\<close>, as is a text that is neither an object
  nor \<^verbatim>\<open>null\<close>; \<^verbatim>\<open>null\<close> leaves the struct as it is. The decoder goes on after an error
  and returns the first one in the end; the model stops at it, since the code reads
  the struct only when there is none.

  The parameter \<open>StdEncoding\<close> stands for \<^verbatim>\<open>base64.StdEncoding\<close>: \<open>StdEncoding s\<close> is \<open>None\<close>
  when \<open>s\<close> is not base64, and the decoded bytes otherwise.
\<close>

definition lower :: "char \<Rightarrow> char" where
  "lower c =
     (case map_of (zip ''ABCDEFGHIJKLMNOPQRSTUVWXYZ'' ''abcdefghijklmnopqrstuvwxyz'') c of
        None \<Rightarrow> c
      | Some l \<Rightarrow> l)"

definition equalFold :: "string \<Rightarrow> string \<Rightarrow> bool" where
  "equalFold a b = (map lower a = map lower b)"

fun set_field :: "(string \<Rightarrow> string option) \<Rightarrow> string \<times> json \<Rightarrow> envelope \<Rightarrow> json_error + envelope" where
  "set_field StdEncoding (name, v) mm =
     (if equalFold name ''Data'' then
        (case v of
           JNull \<Rightarrow> Inr (mm\<lparr>Data := NilByteSlice\<rparr>)
         | JString s \<Rightarrow>
             (case StdEncoding s of
                None \<Rightarrow> Inl CorruptInputError
              | Some bytes \<Rightarrow> Inr (mm\<lparr>Data := ByteSlice bytes (length bytes)\<rparr>))
         | JArray elements \<Rightarrow>
             (case decode_array elements (Data mm) of
                Inl err \<Rightarrow> Inl err
              | Inr bytes \<Rightarrow> Inr (mm\<lparr>Data := bytes\<rparr>))
         | _ \<Rightarrow> Inl UnmarshalTypeError)
      else if equalFold name ''Type'' then
        (case v of
           JNull \<Rightarrow> Inr mm
         | JString s \<Rightarrow> Inr (mm\<lparr>Type := s\<rparr>)
         | _ \<Rightarrow> Inl UnmarshalTypeError)
      else Inr mm)"

fun set_fields :: "(string \<Rightarrow> string option) \<Rightarrow> (string \<times> json) list \<Rightarrow> envelope \<Rightarrow> json_error + envelope" where
  "set_fields StdEncoding [] mm = Inr mm"
| "set_fields StdEncoding (member # members) mm =
     (case set_field StdEncoding member mm of
        Inl err \<Rightarrow> Inl err
      | Inr mm' \<Rightarrow> set_fields StdEncoding members mm')"

definition json_Unmarshal_envelope :: "(string \<Rightarrow> string option) \<Rightarrow> jsontext \<Rightarrow> json_error + envelope" where
  "json_Unmarshal_envelope StdEncoding data =
     (case data of
        None \<Rightarrow> Inl SyntaxError
      | Some JNull \<Rightarrow> Inr zero_envelope
      | Some (JObject members) \<Rightarrow> set_fields StdEncoding members zero_envelope
      | Some _ \<Rightarrow> Inl UnmarshalTypeError)"

text \<open>
  \<^verbatim>\<open>NewMessage\<close> and \<^verbatim>\<open>Message.UnmarshalJSON\<close>. The latter gives the error, or the
  message it stores into \<^verbatim>\<open>*m\<close>.
\<close>

definition NewMessage :: "json \<Rightarrow> json_error + jsontext" where
  "NewMessage data =
     (case json_Marshal data of
        Inl err \<Rightarrow> Inl err
      | Inr b \<Rightarrow> Inr b)"

definition UnmarshalJSON ::
  "(string \<Rightarrow> string option) \<Rightarrow> (string \<Rightarrow> json option) \<Rightarrow> jsontext \<Rightarrow> json_error + jsontext" where
  "UnmarshalJSON StdEncoding spells data =
     (case json_Unmarshal_envelope StdEncoding data of
        Inr mm \<Rightarrow>
          if Type mm = ''json'' then
            (case json_Unmarshal_RawMessage (spelt spells (bytes_of (Data mm))) of
               Inl err \<Rightarrow> Inl err
             | Inr v \<Rightarrow> Inr v)
          else
            (case json_Unmarshal_RawMessage data of
               Inl err \<Rightarrow> Inl err
             | Inr v \<Rightarrow> Inr v)
      | Inl err0 \<Rightarrow>
          (case json_Unmarshal_RawMessage data of
             Inl err \<Rightarrow> Inl err
           | Inr v \<Rightarrow> Inr v))"

text \<open>
  A value reads as the old representation when it decodes into the struct without an
  error and leaves \<^verbatim>\<open>Type\<close> equal to \<^verbatim>\<open>"json"\<close>.
\<close>

definition reads_as_envelope :: "(string \<Rightarrow> string option) \<Rightarrow> json \<Rightarrow> bool" where
  "reads_as_envelope StdEncoding v =
     (case json_Unmarshal_envelope StdEncoding (Some v) of
        Inl err \<Rightarrow> False
      | Inr mm \<Rightarrow> Type mm = ''json'')"

text \<open>
  A base64 decoder and a reader for the concrete runs below. The decoder knows \<^verbatim>\<open>e30=\<close>,
  the encoding of \<^verbatim>\<open>{}\<close>, and \<^verbatim>\<open>eyJhIjpudWxsfQ==\<close>, the encoding of \<^verbatim>\<open>{"a":null}\<close>; the
  reader knows these two texts.
\<close>

definition exampleBase64 :: "string \<Rightarrow> string option" where
  "exampleBase64 s =
     (if s = ''e30='' then Some ''{}''
      else if s = ''eyJhIjpudWxsfQ=='' then Some ''{\"a\":null}''
      else None)"

definition exampleSpells :: "string \<Rightarrow> json option" where
  "exampleSpells b =
     (if b = ''{}'' then Some (JObject [])
      else if b = ''{\"a\":null}'' then Some (JObject [(''a'', JNull)])
      else None)"

section \<open>Facts about the filter loop\<close>

lemma FilterLoop_Cons:
  "FilterLoop (j # jobs) w s limit returned =
     (if matching w s j then
        (if int (length returned) + 1 = limit then returned @ [j]
         else FilterLoop jobs w s limit (returned @ [j]))
      else FilterLoop jobs w s limit returned)"
  by (simp add: matching_def Let_def)

lemma FilterLoop_below:
  "int (length returned) < limit \<Longrightarrow>
   FilterLoop jobs w s limit returned =
     returned @ take (nat limit - length returned) (filter (matching w s) jobs)"
proof (induction jobs arbitrary: returned)
  case Nil
  then show ?case by simp
next
  case (Cons j jobs)
  show ?case
  proof (cases "matching w s j")
    case False
    then show ?thesis using Cons by (simp add: FilterLoop_Cons del: FilterLoop.simps)
  next
    case True
    show ?thesis
    proof (cases "int (length returned) + 1 = limit")
      case full: True
      then have "nat limit - length returned = Suc 0" by linarith
      with True full show ?thesis by (simp add: FilterLoop_Cons del: FilterLoop.simps)
    next
      case notfull: False
      with Cons.prems have lt: "int (length (returned @ [j])) < limit" by simp
      from Cons.prems notfull
      have "nat limit - length returned = Suc (nat limit - length (returned @ [j]))"
        by simp
      with True notfull Cons.IH[OF lt] show ?thesis
        by (simp add: FilterLoop_Cons del: FilterLoop.simps)
    qed
  qed
qed

lemma FilterLoop_above:
  "limit \<le> int (length returned) \<Longrightarrow>
   FilterLoop jobs w s limit returned = returned @ filter (matching w s) jobs"
proof (induction jobs arbitrary: returned)
  case Nil
  then show ?case by simp
next
  case (Cons j jobs)
  then have "limit \<le> int (length (returned @ [j]))" by simp
  from Cons.IH[OF this] Cons.IH[OF Cons.prems] Cons.prems show ?case
    by (simp add: FilterLoop_Cons del: FilterLoop.simps)
qed

lemma FilterByWorkerAndState_pos:
  "1 \<le> limit \<Longrightarrow>
   FilterByWorkerAndState jobs w s limit = take (nat limit) (filter (matching w s) jobs)"
  using FilterLoop_below[of "[]" limit jobs w s] by (simp add: FilterByWorkerAndState_def)

lemma FilterByWorkerAndState_nonpos:
  "limit \<le> 0 \<Longrightarrow> FilterByWorkerAndState jobs w s limit = filter (matching w s) jobs"
  using FilterLoop_above[of limit "[]" jobs w s] by (simp add: FilterByWorkerAndState_def)


lemma matching_set_take_filter:
  "j \<in> set (take n (filter (matching w s) jobs)) \<Longrightarrow> WorkerType j = w \<and> State j = s"
  using in_set_takeD[of j n "filter (matching w s) jobs"] by (simp add: matching_def)





text \<open>
  Claim C8, as the code has it. For every list of jobs, worker type, state and limit
  \<open>L \<ge> 1\<close>, \<^verbatim>\<open>FilterByWorkerAndState\<close> returns at most \<open>L\<close> jobs, every one of them of
  that worker type and in that state, in the order of the input: the result is the first
  \<open>L\<close> matching jobs. Once \<open>L\<close> matches are collected the rest of the input is not
  read: whatever follows in the input leaves the result as it is.
\<close>

theorem FilterByWorkerAndState_capped:
  "1 \<le> L \<Longrightarrow>
     int (length (FilterByWorkerAndState jobs w s L)) \<le> L
   \<and> (\<forall>j \<in> set (FilterByWorkerAndState jobs w s L). WorkerType j = w \<and> State j = s)
   \<and> FilterByWorkerAndState jobs w s L = take (nat L) (filter (matching w s) jobs)
   \<and> (int (length (FilterByWorkerAndState jobs w s L)) = L \<longrightarrow>
        (\<forall>more. FilterByWorkerAndState (jobs @ more) w s L = FilterByWorkerAndState jobs w s L))"
proof -
  assume L: "1 \<le> L"
  have eq: "\<And>xs. FilterByWorkerAndState xs w s L = take (nat L) (filter (matching w s) xs)"
    using L by (rule FilterByWorkerAndState_pos)
  have len: "int (length (FilterByWorkerAndState jobs w s L)) \<le> L"
    using L by (simp add: eq)
  have all: "\<forall>j \<in> set (FilterByWorkerAndState jobs w s L). WorkerType j = w \<and> State j = s"
    using matching_set_take_filter by (simp add: eq)
  have stop: "int (length (FilterByWorkerAndState jobs w s L)) = L \<longrightarrow>
        (\<forall>more. FilterByWorkerAndState (jobs @ more) w s L = FilterByWorkerAndState jobs w s L)"
  proof (intro impI allI)
    fix more
    assume "int (length (FilterByWorkerAndState jobs w s L)) = L"
    then have "nat L \<le> length (filter (matching w s) jobs)" using L by (simp add: eq)
    then show "FilterByWorkerAndState (jobs @ more) w s L = FilterByWorkerAndState jobs w s L"
      by (simp add: eq)
  qed
  from len all eq stop show ?thesis by blast
qed

theorem FilterByWorkerAndState_capped_witness:
  "(1::int) \<le> 2 \<and>
   FilterByWorkerAndState
     [mkJob ''a'' ''mail'' Queued 3, mkJob ''b'' ''thumb'' Queued 4, mkJob ''c'' ''mail'' Done 5,
      mkJob ''d'' ''mail'' Queued 6, mkJob ''e'' ''mail'' Queued 7] ''mail'' Queued 2
     = [mkJob ''a'' ''mail'' Queued 3, mkJob ''d'' ''mail'' Queued 6]"
  using FilterByWorkerAndState_capped[of 2
     "[mkJob ''a'' ''mail'' Queued 3, mkJob ''b'' ''thumb'' Queued 4, mkJob ''c'' ''mail'' Done 5,
      mkJob ''d'' ''mail'' Queued 6, mkJob ''e'' ''mail'' Queued 7]" "''mail''" Queued]
  by (simp add: matching_def mkJob_def Queued_def Done_def)

text \<open>
  With the limit 0 the length of \<open>returned\<close>, compared right after an append, is never
  0: one matching job is returned although the limit is 0.
\<close>

theorem FilterByWorkerAndState_limit_zero_counterexample:
  "\<not> int (length (FilterByWorkerAndState [mkJob ''a'' ''mail'' Queued 3] ''mail'' Queued 0)) \<le> 0"
  by (simp add: FilterByWorkerAndState_def mkJob_def)





section \<open>Facts about persistence\<close>

lemma Create_fields:
  "Create db j s = (err, j', s') \<Longrightarrow> j'\<lparr>JobID := i, JobRev := r\<rparr> = j\<lparr>JobID := i, JobRev := r\<rparr>"
  by (auto simp: Create_def split: prod.splits sum.splits)

lemma Update_fields:
  "Update db j s = (err, j', s') \<Longrightarrow> j'\<lparr>JobID := i, JobRev := r\<rparr> = j\<lparr>JobID := i, JobRev := r\<rparr>"
  by (auto simp: Update_def split: prod.splits sum.splits if_splits dest!: Create_fields[where i=i and r=r])

lemma same_but_identity:
  assumes "j'\<lparr>JobID := '''', JobRev := ''''\<rparr> = j\<lparr>JobID := '''', JobRev := ''''\<rparr>"
  shows "State j' = State j" "FinishedAt j' = FinishedAt j" "Event j' = Event j"
    "Payload j' = Payload j" "Error j' = Error j" "StartedAt j' = StartedAt j"
proof -
  have "State (j'\<lparr>JobID := '''', JobRev := ''''\<rparr>) = State (j\<lparr>JobID := '''', JobRev := ''''\<rparr>)"
    using assms by simp
  then show "State j' = State j" by simp
  have "FinishedAt (j'\<lparr>JobID := '''', JobRev := ''''\<rparr>) = FinishedAt (j\<lparr>JobID := '''', JobRev := ''''\<rparr>)"
    using assms by simp
  then show "FinishedAt j' = FinishedAt j" by simp
  have "Event (j'\<lparr>JobID := '''', JobRev := ''''\<rparr>) = Event (j\<lparr>JobID := '''', JobRev := ''''\<rparr>)"
    using assms by simp
  then show "Event j' = Event j" by simp
  have "Payload (j'\<lparr>JobID := '''', JobRev := ''''\<rparr>) = Payload (j\<lparr>JobID := '''', JobRev := ''''\<rparr>)"
    using assms by simp
  then show "Payload j' = Payload j" by simp
  have "Error (j'\<lparr>JobID := '''', JobRev := ''''\<rparr>) = Error (j\<lparr>JobID := '''', JobRev := ''''\<rparr>)"
    using assms by simp
  then show "Error j' = Error j" by simp
  have "StartedAt (j'\<lparr>JobID := '''', JobRev := ''''\<rparr>) = StartedAt (j\<lparr>JobID := '''', JobRev := ''''\<rparr>)"
    using assms by simp
  then show "StartedAt j' = StartedAt j" by simp
qed

lemma terminal_identity [simp]:
  "terminal st now (d\<lparr>JobID := i, JobRev := r\<rparr>) = terminal st now d"
  by (simp add: terminal_def)

lemma Create_agree:
  "agree_on P db db' \<Longrightarrow> P d \<Longrightarrow> Create db d s = Create db' d s"
  by (simp add: agree_on_def Create_def)

lemma Update_agree:
  assumes "agree_on (terminal st now) db db'" and "terminal st now d"
  shows "Update db d s = Update db' d s"
proof -
  from assms have u: "UpdateDoc db s d = UpdateDoc db' s d"
    and n: "IsNotFoundError db = IsNotFoundError db'"
    by (simp_all add: agree_on_def)
  have c: "Create db (d\<lparr>JobID := '''', JobRev := ''''\<rparr>) s' = Create db' (d\<lparr>JobID := '''', JobRev := ''''\<rparr>) s'"
    for s'
    using assms by (intro Create_agree[where P = "terminal st now"]) simp_all
  show ?thesis
    unfolding Update_def u n by (simp add: c split: prod.splits sum.splits)
qed

lemma storeA_storeB_agree: "agree_on (terminal st now) storeA storeB"
  by (simp add: agree_on_def terminal_def storeA_def storeB_def)

text \<open>
  Claim C2. For every job, store and clock reading \<open>now\<close>: after \<^verbatim>\<open>Ack\<close> the job has the
  state Done, after \<^verbatim>\<open>Nack(msg)\<close> the state Errored and the error \<open>msg\<close>; after both
  \<^verbatim>\<open>FinishedAt\<close> is \<open>now\<close> and \<^verbatim>\<open>Event\<close> and \<^verbatim>\<open>Payload\<close> are \<^verbatim>\<open>nil\<close>, whether the
  store accepted the write, re-created the document or failed. The fields are cleared
  before the job is persisted: the outcome of \<^verbatim>\<open>Ack\<close> (of \<^verbatim>\<open>Nack\<close>) is the same with any
  two stores that answer alike for the jobs in the terminal state with \<^verbatim>\<open>FinishedAt\<close>
  set and no event and no payload, so no other job reaches the store.
\<close>

theorem Ack_Nack_clear_before_persisting:
  "(case Ack db now j s of (err, j', s') \<Rightarrow>
      State j' = Done \<and> FinishedAt j' = now \<and> Event j' = None \<and> Payload j' = None)
 \<and> (case Nack db now msg j s of (err, j', s') \<Rightarrow>
      State j' = Errored \<and> Error j' = msg \<and> FinishedAt j' = now \<and> Event j' = None \<and>
      Payload j' = None)
 \<and> (agree_on (terminal Done now) db db' \<longrightarrow> Ack db now j s = Ack db' now j s)
 \<and> (agree_on (terminal Errored now) db db' \<longrightarrow> Nack db now msg j s = Nack db' now msg j s)"
proof -
  have a: "case Ack db now j s of (err, j', s') \<Rightarrow>
      State j' = Done \<and> FinishedAt j' = now \<and> Event j' = None \<and> Payload j' = None"
  proof -
    obtain err j' s' where r: "Ack db now j s = (err, j', s')" by (cases "Ack db now j s")
    then have "Update db (j\<lparr>FinishedAt := now, State := Done, Event := None, Payload := None\<rparr>) s
        = (err, j', s')" by (simp add: Ack_def)
    from same_but_identity[OF Update_fields[OF this]] r show ?thesis by simp
  qed
  have b: "case Nack db now msg j s of (err, j', s') \<Rightarrow>
      State j' = Errored \<and> Error j' = msg \<and> FinishedAt j' = now \<and> Event j' = None \<and>
      Payload j' = None"
  proof -
    obtain err j' s' where r: "Nack db now msg j s = (err, j', s')" by (cases "Nack db now msg j s")
    then have "Update db (j\<lparr>FinishedAt := now, State := Errored, Error := msg, Event := None,
        Payload := None\<rparr>) s = (err, j', s')" by (simp add: Nack_def)
    from same_but_identity[OF Update_fields[OF this]] r show ?thesis by simp
  qed
  have c: "agree_on (terminal Done now) db db' \<longrightarrow> Ack db now j s = Ack db' now j s"
    by (auto simp: Ack_def intro!: Update_agree[where st = Done and now = now] simp: terminal_def)
  have d: "agree_on (terminal Errored now) db db' \<longrightarrow> Nack db now msg j s = Nack db' now msg j s"
    by (auto simp: Nack_def intro!: Update_agree[where st = Errored and now = now] simp: terminal_def)
  from a b c d show ?thesis by blast
qed

theorem Ack_Nack_clear_before_persisting_witness:
  "agree_on (terminal Done 30) storeA storeB \<and> agree_on (terminal Errored 30) storeA storeB
 \<and> Ack storeB 30 (runningJob ''j1'') 0 =
     (None, (runningJob ''j1'')\<lparr>JobRev := ''2-b'', Event := None, Payload := None, State := Done,
        FinishedAt := 30\<rparr>, 1)
 \<and> Nack storeB 30 ''x'' (runningJob ''gone'') 0 =
     (None, (runningJob ''gone'')\<lparr>JobID := ''fresh'', JobRev := ''1-a'', Event := None,
        Payload := None, State := Errored, FinishedAt := 30, Error := ''x''\<rparr>, 1)"
  using Ack_Nack_clear_before_persisting[where db = storeA and now = 30 and j = "runningJob ''j1''"
      and s = 0 and msg = "''x''" and db' = storeB]
    Ack_Nack_clear_before_persisting[where db = storeA and now = 30 and j = "runningJob ''gone''"
      and s = 0 and msg = "''x''" and db' = storeB]
    storeA_storeB_agree[of Done 30] storeA_storeB_agree[of Errored 30]
  by (simp add: Ack_def Nack_def Update_def Create_def storeA_def runningJob_def)

text \<open>
  Claim C3, as the code has it. When the store's update fails with an error that
  \<^verbatim>\<open>IsNotFoundError\<close> accepts, \<^verbatim>\<open>Update\<close> asks the store, as the failed update left it, to
  create the job with its identifier and revision reset to the empty string, and
  returns what the creation gives. When the store creates the document the caller gets
  no error and the job carries the identifier and revision the store assigned. When the
  creation fails the caller gets the error of the creation, whatever it is, and the job
  is left without identifier and revision. Any other error of the update is returned as
  it is, with the job unchanged and the store as that one update left it; the store is
  not asked to create anything then, and it is never asked to create a job that still
  has an identifier or a revision.
\<close>

theorem Update_not_found_creates:
  "(UpdateDoc db s j = (Inl err, s') \<and> IsNotFoundError db err \<and>
    CreateDoc db s' (j\<lparr>JobID := '''', JobRev := ''''\<rparr>) = (Inr (id', rev'), s'') \<longrightarrow>
      Update db j s = (None, j\<lparr>JobID := id', JobRev := rev'\<rparr>, s''))
 \<and> (UpdateDoc db s j = (Inl err, s') \<and> IsNotFoundError db err \<and>
    CreateDoc db s' (j\<lparr>JobID := '''', JobRev := ''''\<rparr>) = (Inl err', s'') \<longrightarrow>
      Update db j s = (Some err', j\<lparr>JobID := '''', JobRev := ''''\<rparr>, s''))
 \<and> (UpdateDoc db s j = (Inl err, s') \<and> \<not> IsNotFoundError db err \<longrightarrow>
      Update db j s = (Some err, j, s') \<and>
      Update (db\<lparr>CreateDoc := create\<rparr>) j s = (Some err, j, s'))
 \<and> ((\<forall>st d. JobID d = '''' \<and> JobRev d = '''' \<longrightarrow> create st d = CreateDoc db st d) \<longrightarrow>
      Update (db\<lparr>CreateDoc := create\<rparr>) j s = Update db j s)"
proof (intro conjI impI)
  assume "UpdateDoc db s j = (Inl err, s') \<and> IsNotFoundError db err \<and>
    CreateDoc db s' (j\<lparr>JobID := '''', JobRev := ''''\<rparr>) = (Inr (id', rev'), s'')"
  then show "Update db j s = (None, j\<lparr>JobID := id', JobRev := rev'\<rparr>, s'')"
    by (simp add: Update_def Create_def)
next
  assume "UpdateDoc db s j = (Inl err, s') \<and> IsNotFoundError db err \<and>
    CreateDoc db s' (j\<lparr>JobID := '''', JobRev := ''''\<rparr>) = (Inl err', s'')"
  then show "Update db j s = (Some err', j\<lparr>JobID := '''', JobRev := ''''\<rparr>, s'')"
    by (simp add: Update_def Create_def)
next
  assume "UpdateDoc db s j = (Inl err, s') \<and> \<not> IsNotFoundError db err"
  then show "Update db j s = (Some err, j, s')"
    by (simp add: Update_def)
next
  assume "UpdateDoc db s j = (Inl err, s') \<and> \<not> IsNotFoundError db err"
  then show "Update (db\<lparr>CreateDoc := create\<rparr>) j s = (Some err, j, s')"
    by (simp add: Update_def)
next
  assume same: "\<forall>st d. JobID d = '''' \<and> JobRev d = '''' \<longrightarrow> create st d = CreateDoc db st d"
  have "Create (db\<lparr>CreateDoc := create\<rparr>) (j\<lparr>JobID := '''', JobRev := ''''\<rparr>) st =
      Create db (j\<lparr>JobID := '''', JobRev := ''''\<rparr>) st" for st
    using same by (simp add: Create_def)
  then show "Update (db\<lparr>CreateDoc := create\<rparr>) j s = Update db j s"
    by (simp add: Update_def split: prod.splits sum.splits)
qed

theorem Update_not_found_creates_witness:
  "UpdateDoc storeA 7 (runningJob ''gone'') = (Inl NotFound, 7) \<and> IsNotFoundError storeA NotFound
 \<and> CreateDoc storeA 7 ((runningJob ''gone'')\<lparr>JobID := '''', JobRev := ''''\<rparr>) = (Inr (''fresh'', ''1-a''), 8)
 \<and> Update storeA (runningJob ''gone'') 7 = (None, (runningJob ''gone'')\<lparr>JobID := ''fresh'', JobRev := ''1-a''\<rparr>, 8)
 \<and> UpdateDoc storeA 7 (runningJob ''stale'') = (Inl Conflict, 7) \<and> \<not> IsNotFoundError storeA Conflict
 \<and> Update storeA (runningJob ''stale'') 7 = (Some Conflict, runningJob ''stale'', 7)
 \<and> Update (storeA\<lparr>CreateDoc := CreateDoc storeB\<rparr>) (runningJob ''stale'') 7 =
     (Some Conflict, runningJob ''stale'', 7)
 \<and> CreateDoc storeC 7 ((runningJob ''gone'')\<lparr>JobID := '''', JobRev := ''''\<rparr>) = (Inl NotFound, 7)
 \<and> Update storeC (runningJob ''gone'') 7 =
     (Some NotFound, (runningJob ''gone'')\<lparr>JobID := '''', JobRev := ''''\<rparr>, 7)
 \<and> Update (storeA\<lparr>CreateDoc := (\<lambda>st d. if JobID d = '''' \<and> JobRev d = '''' then CreateDoc storeA st d
                                         else (Inl Conflict, st))\<rparr>) (runningJob ''gone'') 7 =
     (None, (runningJob ''gone'')\<lparr>JobID := ''fresh'', JobRev := ''1-a''\<rparr>, 8)"
  using Update_not_found_creates[where db = storeA and s = 7 and j = "runningJob ''gone''"
      and err = NotFound and s' = 7 and id' = "''fresh''" and rev' = "''1-a''" and s'' = 8
      and create = "\<lambda>st d. if JobID d = '''' \<and> JobRev d = '''' then CreateDoc storeA st d
                                         else (Inl Conflict, st)"]
    Update_not_found_creates[where db = storeA and s = 7 and j = "runningJob ''stale''"
      and err = Conflict and s' = 7 and create = "CreateDoc storeB"]
    Update_not_found_creates[where db = storeC and s = 7 and j = "runningJob ''gone''"
      and err = NotFound and s' = 7 and err' = NotFound and s'' = 7]
  by (simp add: storeA_def storeC_def runningJob_def)

text \<open>
  The store \<open>storeC\<close> has lost the collection and cannot create the document: the update
  fails with a not-found error, so does the creation, and the caller of \<^verbatim>\<open>Update\<close> gets a
  not-found error and a job that is no document of the store.
\<close>

theorem Update_not_found_twice_counterexample:
  "UpdateDoc storeC 7 (runningJob ''gone'') = (Inl NotFound, 7)
 \<and> IsNotFoundError storeC NotFound
 \<and> Update storeC (runningJob ''gone'') 7 =
     (Some NotFound, (runningJob ''gone'')\<lparr>JobID := '''', JobRev := ''''\<rparr>, 7)"
  by (simp add: Update_def Create_def storeC_def storeA_def runningJob_def)

text \<open>
  Claim C5. \<^verbatim>\<open>NewJob\<close> is a total function with no error result. For every tenant and
  request, when the clock is read at \<open>now\<close> between the start \<open>t0\<close> and the end \<open>t1\<close> of the
  call, the job has the state Queued, \<^verbatim>\<open>QueuedAt\<close> within \<open>t0\<close> and \<open>t1\<close>, zero \<^verbatim>\<open>StartedAt\<close>
  and \<^verbatim>\<open>FinishedAt\<close>, the dispatch fields of the request, the tenant's domain and prefix,
  and no identifier, revision or error yet.
\<close>

theorem NewJob_queued:
  "t0 \<le> now \<and> now \<le> t1 \<longrightarrow>
     State (NewJob db req now) = Queued
   \<and> t0 \<le> QueuedAt (NewJob db req now) \<and> QueuedAt (NewJob db req now) \<le> t1
   \<and> StartedAt (NewJob db req now) = 0 \<and> FinishedAt (NewJob db req now) = 0
   \<and> WorkerType (NewJob db req now) = JobRequest.WorkerType req
   \<and> TriggerID (NewJob db req now) = JobRequest.TriggerID req
   \<and> Message (NewJob db req now) = JobRequest.Message req
   \<and> Event (NewJob db req now) = JobRequest.Event req
   \<and> Payload (NewJob db req now) = JobRequest.Payload req
   \<and> Manual (NewJob db req now) = JobRequest.Manual req
   \<and> Debounced (NewJob db req now) = JobRequest.Debounced req
   \<and> ForwardLogs (NewJob db req now) = JobRequest.ForwardLogs req
   \<and> Options (NewJob db req now) = JobRequest.Options req
   \<and> Domain (NewJob db req now) = DomainName db \<and> Prefix (NewJob db req now) = DBPrefix db
   \<and> JobID (NewJob db req now) = '''' \<and> JobRev (NewJob db req now) = ''''
   \<and> Error (NewJob db req now) = ''''"
  by (simp add: NewJob_def)

theorem NewJob_queued_witness:
  "(100::int) \<le> 105 \<and> (105::int) \<le> 110
 \<and> NewJob \<lparr>DomainName = ''alice.example'', DBPrefix = ''alice''\<rparr> exampleRequest 105 =
     \<lparr>JobID = '''', JobRev = '''', Domain = ''alice.example'', Prefix = ''alice'',
      WorkerType = ''konnector'', TriggerID = ''t1'', Message = Some 1, Event = None,
      Payload = Some 3, Manual = True, Debounced = False, Options = Some 4, State = ''queued'',
      QueuedAt = 105, StartedAt = 0, FinishedAt = 0, Error = '''', ForwardLogs = True\<rparr>"
  using NewJob_queued[of 100 105 110 "\<lparr>DomainName = ''alice.example'', DBPrefix = ''alice''\<rparr>" exampleRequest]
  by (simp add: NewJob_def exampleRequest_def Queued_def)

section \<open>Facts about the traversal of the history\<close>

lemma collection_page:
  assumes "collection (pre @ x # rest)"
  shows "filter (\<lambda>d. JobID x \<le> JobID d) (pre @ x # rest) = x # rest"
proof -
  from assms have pre: "\<forall>d \<in> set pre. JobID d < JobID x"
    and rest: "\<forall>d \<in> set rest. JobID x < JobID d"
    by (auto simp: collection_def sorted_wrt_append)
  from pre have "filter (\<lambda>d. JobID x \<le> JobID d) pre = []"
    by (auto simp: filter_empty_conv)
  moreover from rest have "filter (\<lambda>d. JobID x \<le> JobID d) rest = rest"
    by (auto simp: filter_id_conv)
  ultimately show ?thesis by simp
qed

lemma GetAllJobsLoop_rest:
  assumes "collection (pre @ rest)" and "rest \<noteq> []"
    and "filter (\<lambda>d. startkey \<le> JobID d) (pre @ rest) = rest"
  shows "GetAllJobsLoop (GetAllDocs (pre @ rest) :: AllDocsRequest \<Rightarrow> 'e + Job list)
      startkey finalJobs = Some (Inr (finalJobs @ rest))"
  using assms
proof (induction "length rest" arbitrary: pre rest startkey finalJobs rule: less_induct)
  case less
  let ?page = "take 10001 rest"
  have fetch: "GetAllDocs (pre @ rest) \<lparr>Limit = 10001, StartKey = startkey\<rparr> = Inr ?page"
    using less.prems(3) by (simp add: GetAllDocs_def)
  from less.prems(2) have page_ne: "?page \<noteq> []" by simp
  show ?case
  proof (cases "butlast ?page = []")
    case True
    then have "length ?page = 1" using page_ne
      by (metis One_nat_def append_butlast_last_id length_Cons list.size(3) self_append_conv2)
    then have "length rest = 1" by (simp add: min_def split: if_splits)
    then have "?page = rest" by simp
    then have "finalJobs @ butlast ?page @ [last ?page] = finalJobs @ rest"
      using page_ne by simp
    with True page_ne show ?thesis
      by (subst GetAllJobsLoop.simps) (simp add: fetch Let_def)
  next
    case False
    define k where "k = length ?page - 1"
    from False have "2 \<le> length ?page"
      by (cases ?page) (auto simp: Suc_le_eq)
    then have kpos: "0 < k" and klt: "k < length rest" and kle: "k \<le> 10001"
      by (simp_all add: k_def min_def split: if_splits)
    have "butlast ?page = take k ?page" by (simp add: butlast_conv_take k_def)
    also have "\<dots> = take k rest" using kle by (simp add: min_def)
    finally have k: "butlast ?page = take k rest" "0 < k" "k < length rest"
      using kpos klt by simp_all
    have last: "last ?page = rest ! k"
      using page_ne k by (simp add: last_conv_nth k_def min_def)
    have split: "rest = take k rest @ rest ! k # drop (Suc k) rest"
      using k by (simp add: id_take_nth_drop[symmetric])
    let ?pre' = "pre @ take k rest" and ?rest' = "rest ! k # drop (Suc k) rest"
    have whole: "?pre' @ ?rest' = pre @ rest" using split by simp
    have shorter: "length ?rest' < length rest" using k by simp
    have "collection (?pre' @ ?rest')" using whole less.prems(1) by simp
    then have page': "filter (\<lambda>d. JobID (rest ! k) \<le> JobID d) (?pre' @ ?rest') = ?rest'"
      using collection_page[of ?pre' "rest ! k" "drop (Suc k) rest"] by simp
    have "GetAllJobsLoop (GetAllDocs (?pre' @ ?rest') :: AllDocsRequest \<Rightarrow> 'e + Job list)
          (JobID (rest ! k)) (finalJobs @ take k rest)
        = Some (Inr ((finalJobs @ take k rest) @ ?rest'))"
      by (rule less.hyps[OF shorter \<open>collection (?pre' @ ?rest')\<close> _ page']) simp
    then have rec: "GetAllJobsLoop (GetAllDocs (pre @ rest) :: AllDocsRequest \<Rightarrow> 'e + Job list)
          (JobID (rest ! k)) (finalJobs @ take k rest)
        = Some (Inr (finalJobs @ rest))"
      using whole split by (metis append.assoc)
    show ?thesis
      using False page_ne rec
      by (subst GetAllJobsLoop.simps) (simp add: fetch Let_def k(1) last)
  qed
qed

lemma collection_distinct: "collection docs \<Longrightarrow> distinct docs"
proof -
  assume "collection docs"
  then have "sorted_wrt (<) (map JobID docs)" by (simp add: collection_def sorted_wrt_map)
  then have "distinct (map JobID docs)" by (simp add: strict_sorted_iff)
  then show ?thesis by (simp add: distinct_map)
qed

text \<open>
  Claim C1. For a tenant whose collection holds the job documents \<open>docs\<close> (any number of
  them: none, fewer than the page size 10001, exactly as many, or more), \<^verbatim>\<open>GetAllJobs\<close>
  ends and returns exactly the list \<open>docs\<close>, which has no duplicates: every document
  once. The induction covers the lap whose page holds only the document the start key
  names, where the loop ends.
\<close>

theorem GetAllJobs_every_document_once:
  "collection docs \<Longrightarrow>
     GetAllJobs (GetAllDocs docs) = Some (Inr docs) \<and> distinct docs"
proof -
  assume c: "collection docs"
  have "GetAllJobs (GetAllDocs docs) = Some (Inr docs)"
  proof (cases "docs = []")
    case True
    then show ?thesis
      unfolding GetAllJobs_def by (subst GetAllJobsLoop.simps) (simp add: GetAllDocs_def)
  next
    case False
    have "filter (\<lambda>d. '''' \<le> JobID d) ([] @ docs) = docs" by simp
    from GetAllJobsLoop_rest[of "[]" docs "''''" "[]"] c False this show ?thesis
      by (simp add: GetAllJobs_def)
  qed
  with collection_distinct[OF c] show ?thesis by simp
qed

theorem GetAllJobs_every_document_once_witness:
  "collection [mkJob ''a1'' ''mail'' Queued 3, mkJob ''a2'' ''thumb'' Done 1, mkJob ''b0'' ''mail'' Errored 2]
 \<and> GetAllJobs (GetAllDocs
      [mkJob ''a1'' ''mail'' Queued 3, mkJob ''a2'' ''thumb'' Done 1, mkJob ''b0'' ''mail'' Errored 2])
    = Some (Inr [mkJob ''a1'' ''mail'' Queued 3, mkJob ''a2'' ''thumb'' Done 1, mkJob ''b0'' ''mail'' Errored 2])"
  using GetAllJobs_every_document_once[of
      "[mkJob ''a1'' ''mail'' Queued 3, mkJob ''a2'' ''thumb'' Done 1, mkJob ''b0'' ''mail'' Errored 2]"]
  by (simp add: collection_def mkJob_def)

section \<open>Facts about the wait\<close>

text \<open>The loop reads the state an event carries.\<close>

lemma event_state_carries:
  "state \<noteq> '''' \<Longrightarrow> state \<noteq> Queued \<Longrightarrow> (event_state doc = state) = carries_state doc state"
  by (cases doc) (auto simp: state_of_def split: option.splits anyval.splits)

lemma event_state_Done: "(event_state doc = Done) = carries_state doc Done"
  by (rule event_state_carries) (simp_all add: Done_def Queued_def)

lemma event_state_Errored: "(event_state doc = Errored) = carries_state doc Errored"
  by (rule event_state_carries) (simp_all add: Errored_def Queued_def)

lemma WaitLoop_Received:
  "WaitLoop (Received doc # rest) =
     (if carries_state doc Done then Some None
      else if carries_state doc Errored then Some (Some ''The konnector failed on account deletion'')
      else WaitLoop rest)"
  by (simp add: Let_def event_state_Done event_state_Errored)

lemma WaitLoop_selects_early:
  assumes "\<forall>(t, doc) \<in> set before. t < timeout \<and> pending doc" and "t < timeout"
  shows "WaitLoop (selects timeout pick n (before @ (t, doc) # after)) =
     WaitLoop (Received doc # selects timeout pick (Suc (n + length before)) after)"
  using assms(1)
proof (induction before arbitrary: n)
  case Nil
  then show ?case using assms(2) by simp
next
  case (Cons e before)
  obtain t' doc' where e: "e = (t', doc')" by (cases e)
  with Cons.prems have "t' < timeout" "pending doc'"
    and rest: "\<forall>(t, doc) \<in> set before. t < timeout \<and> pending doc" by auto
  with Cons.IH[OF rest, of "Suc n"] e show ?case
    by (simp add: WaitLoop_Received pending_def del: WaitLoop.simps)
qed

lemma WaitLoop_selects_pending:
  assumes "\<forall>(t, doc) \<in> set events. t \<le> timeout \<longrightarrow> pending doc"
  shows "WaitLoop (selects timeout pick n events) = Some None"
  using assms
proof (induction events arbitrary: n)
  case Nil
  then show ?case by simp
next
  case (Cons e events)
  obtain t doc where e: "e = (t, doc)" by (cases e)
  from Cons.prems have rest: "\<forall>(t, doc) \<in> set events. t \<le> timeout \<longrightarrow> pending doc" by simp
  show ?case
  proof (cases "t < timeout \<or> (t = timeout \<and> pick n)")
    case True
    then have "t \<le> timeout" by auto
    with Cons.prems e have "pending doc" by auto
    with True e Cons.IH[OF rest, of "Suc n"] show ?thesis
      by (simp add: WaitLoop_Received pending_def del: WaitLoop.simps)
  next
    case False
    then have "selects timeout pick n ((t, doc) # events) = [TimedOut]" by simp
    with e show ?thesis by simp
  qed
qed

text \<open>
  The wait always ends: the timer is among the outcomes of the selects, so the loop is
  never left blocked.
\<close>

lemma WaitLoop_timer: "WaitLoop (selects timeout pick n events) \<noteq> None"
proof (induction events arbitrary: n)
  case Nil
  then show ?case by simp
next
  case (Cons e events)
  obtain t doc where "e = (t, doc)" by (cases e)
  with Cons.IH[of "Suc n"] show ?case by (simp add: Let_def)
qed

lemma WaitUntilDone_returns: "\<exists>result. WaitUntilDone watch pick events = Some result"
proof (cases watch)
  case None
  with WaitLoop_timer[of "10 * Minute" pick 0 events] show ?thesis
    by (auto simp: WaitUntilDone_def)
next
  case (Some err)
  then show ?thesis by (simp add: WaitUntilDone_def)
qed

text \<open>
  Claim C4. Once the subscription watches the job, and whichever way the selects go when
  an event and the timer are ready at once: when the first event that is not pending
  arrives before 10 minutes have passed and carries the state Done (a \<^verbatim>\<open>*Job\<close> in that
  state or a JSON document with that \<^verbatim>\<open>state\<close>), \<^verbatim>\<open>WaitUntilDone\<close> returns \<^verbatim>\<open>nil\<close>; when it
  carries the state Errored, \<^verbatim>\<open>WaitUntilDone\<close> returns an error; and when no event
  arriving within the 10 minutes carries either state, \<^verbatim>\<open>WaitUntilDone\<close> returns \<^verbatim>\<open>nil\<close>
  all the same, whatever arrives later.
\<close>

theorem WaitUntilDone_outcomes:
  "((\<forall>(t, doc) \<in> set before. t < 10 * Minute \<and> pending doc) \<and> t < 10 * Minute \<and>
      carries_state doc Done \<longrightarrow>
        WaitUntilDone None pick (before @ (t, doc) # after) = Some None)
 \<and> ((\<forall>(t, doc) \<in> set before. t < 10 * Minute \<and> pending doc) \<and> t < 10 * Minute \<and>
      carries_state doc Errored \<longrightarrow>
        WaitUntilDone None pick (before @ (t, doc) # after) =
          Some (Some ''The konnector failed on account deletion''))
 \<and> ((\<forall>(t, doc) \<in> set events. t \<le> 10 * Minute \<longrightarrow> pending doc) \<longrightarrow>
        WaitUntilDone None pick events = Some None)"
proof (intro conjI impI)
  assume a: "(\<forall>(t, doc) \<in> set before. t < 10 * Minute \<and> pending doc) \<and> t < 10 * Minute \<and>
      carries_state doc Done"
  then have "WaitLoop (selects (10 * Minute) pick 0 (before @ (t, doc) # after)) =
      WaitLoop (Received doc # selects (10 * Minute) pick (Suc (0 + length before)) after)"
    by (intro WaitLoop_selects_early) simp_all
  with a show "WaitUntilDone None pick (before @ (t, doc) # after) = Some None"
    by (simp add: WaitUntilDone_def WaitLoop_Received del: WaitLoop.simps)
next
  assume a: "(\<forall>(t, doc) \<in> set before. t < 10 * Minute \<and> pending doc) \<and> t < 10 * Minute \<and>
      carries_state doc Errored"
  then have "WaitLoop (selects (10 * Minute) pick 0 (before @ (t, doc) # after)) =
      WaitLoop (Received doc # selects (10 * Minute) pick (Suc (0 + length before)) after)"
    by (intro WaitLoop_selects_early) simp_all
  moreover have "\<not> carries_state doc Done"
    using a event_state_Done[of doc] event_state_Errored[of doc]
    by (auto simp: Done_def Errored_def)
  ultimately show "WaitUntilDone None pick (before @ (t, doc) # after) =
          Some (Some ''The konnector failed on account deletion'')"
    using a by (simp add: WaitUntilDone_def WaitLoop_Received del: WaitLoop.simps)
next
  assume "\<forall>(t, doc) \<in> set events. t \<le> 10 * Minute \<longrightarrow> pending doc"
  then show "WaitUntilDone None pick events = Some None"
    by (simp add: WaitUntilDone_def WaitLoop_selects_pending)
qed

theorem WaitUntilDone_outcomes_witness:
  "WaitUntilDone None (\<lambda>n. True)
     [(5 * Minute, JobDoc (mkJob ''j'' ''konnector'' Running 1)),
      (6 * Minute, JobDoc (mkJob ''j'' ''konnector'' Done 1))] = Some None
 \<and> WaitUntilDone None (\<lambda>n. True)
     [(5 * Minute, RealtimeJSONDoc [''state'' \<mapsto> StringVal ''running'']),
      (6 * Minute, JobDoc (mkJob ''j'' ''konnector'' Errored 1)),
      (7 * Minute, JobDoc (mkJob ''j'' ''konnector'' Done 1))]
     = Some (Some ''The konnector failed on account deletion'')
 \<and> WaitUntilDone None (\<lambda>n. True)
     [(5 * Minute, JobDoc (mkJob ''j'' ''konnector'' Running 1)),
      (10 * Minute, CouchJSONDoc [''state'' \<mapsto> OtherVal]),
      (11 * Minute, JobDoc (mkJob ''j'' ''konnector'' Errored 1))] = Some None"
  using WaitUntilDone_outcomes[where before = "[(5 * Minute, JobDoc (mkJob ''j'' ''konnector'' Running 1))]"
      and t = "6 * Minute" and doc = "JobDoc (mkJob ''j'' ''konnector'' Done 1)"
      and after = "[]" and pick = "\<lambda>n. True"
      and events = "[(5 * Minute, JobDoc (mkJob ''j'' ''konnector'' Running 1)),
         (10 * Minute, CouchJSONDoc [''state'' \<mapsto> OtherVal]),
         (11 * Minute, JobDoc (mkJob ''j'' ''konnector'' Errored 1))]"]
    WaitUntilDone_outcomes[where before = "[(5 * Minute, RealtimeJSONDoc [''state'' \<mapsto> StringVal ''running''])]"
      and t = "6 * Minute" and doc = "JobDoc (mkJob ''j'' ''konnector'' Errored 1)"
      and after = "[(7 * Minute, JobDoc (mkJob ''j'' ''konnector'' Done 1))]"
      and pick = "\<lambda>n. True"]
  by (simp add: pending_def mkJob_def Minute_def Running_def Done_def Errored_def)

text \<open>
  The JSON documents as well: a store document whose \<^verbatim>\<open>state\<close> is \<^verbatim>\<open>"errored"\<close> ends the
  wait with the error, a realtime document whose \<^verbatim>\<open>state\<close> is \<^verbatim>\<open>"done"\<close> without one.
\<close>

lemma WaitUntilDone_JSON_documents:
  "WaitUntilDone None pick [(Minute, CouchJSONDoc [''state'' \<mapsto> StringVal ''errored''])]
     = Some (Some ''The konnector failed on account deletion'')"
  "WaitUntilDone None pick [(Minute, RealtimeJSONDoc [''state'' \<mapsto> StringVal ''done''])] = Some None"
  by (simp_all add: WaitUntilDone_def Minute_def state_of_def Done_def Errored_def)

section \<open>Facts about the clone\<close>

text \<open>
  The slip in the three blocks for the byte slices shows in which of the two jobs gets
  the new array: the clone keeps the array the receiver had, the receiver is moved to
  the copy.
\<close>

lemma Clone_moves_receiver:
  "Message j = Some a \<Longrightarrow> Options j = None \<Longrightarrow>
   (case Clone h j of (cloned, j', h') \<Rightarrow> Message cloned = Some a \<and> Message j' = Some (brk h))"
  by (cases "Event j"; cases "Payload j")
    (simp_all add: Clone_def make_bytes_def copy_bytes_def Let_def)

text \<open>
  Claim C9. For every job that lives in the memory, after \<^verbatim>\<open>Clone\<close> the clone has the
  fields of the original: the plain fields are equal, each byte slice holds the bytes
  the original's held (and is \<^verbatim>\<open>nil\<close> where the original's was), and the options pointer
  leads to equal options. The original holds the same values after the call as before.
  After the call no byte array is referred to by both the clone and the original, and
  their options pointers, unless \<^verbatim>\<open>nil\<close>, differ: the two share no storage for these
  fields.
\<close>

theorem Clone_shares_nothing:
  "lives_in j h \<Longrightarrow>
   (case Clone h j of (cloned, j', h') \<Rightarrow>
      plain_fields cloned = plain_fields j
    \<and> blob h' (Message cloned) = blob h (Message j)
    \<and> blob h' (Event cloned) = blob h (Event j)
    \<and> blob h' (Payload cloned) = blob h (Payload j)
    \<and> options_value h' cloned = options_value h j
    \<and> plain_fields j' = plain_fields j
    \<and> blob h' (Message j') = blob h (Message j)
    \<and> blob h' (Event j') = blob h (Event j)
    \<and> blob h' (Payload j') = blob h (Payload j)
    \<and> options_value h' j' = options_value h j
    \<and> blob_refs cloned \<inter> blob_refs j' = {}
    \<and> set_option (Options cloned) \<inter> set_option (Options j') = {}
    \<and> lives_in cloned h' \<and> lives_in j' h')"
proof -
  assume l: "lives_in j h"
  show ?thesis
  proof (cases "Options j")
    case None
    show ?thesis
    proof (cases "Message j"; cases "Event j"; cases "Payload j")
    qed (use l None in \<open>simp_all add: Clone_def lives_in_def blob_refs_def blob_def options_value_def
        plain_fields_def make_bytes_def copy_bytes_def new_options_def Let_def\<close>)
  next
    case (Some p)
    show ?thesis
    proof (cases "Message j"; cases "Event j"; cases "Payload j")
    qed (use l Some in \<open>simp_all add: Clone_def lives_in_def blob_refs_def blob_def options_value_def
        plain_fields_def make_bytes_def copy_bytes_def new_options_def Let_def\<close>)
  qed
qed

theorem Clone_shares_nothing_witness:
  "lives_in exampleJob exampleMemory
 \<and> (case Clone exampleMemory exampleJob of (cloned, j', h') \<Rightarrow>
      blob h' (Message cloned) = Some ''{\"to\":\"bob\"}'' \<and> blob h' (Message j') = Some ''{\"to\":\"bob\"}''
    \<and> blob_refs cloned = {1, 2} \<and> blob_refs j' = {6, 7}
    \<and> Options cloned = Some 5 \<and> Options j' = Some 4)"
  using Clone_shares_nothing[of exampleJob exampleMemory]
  by (simp add: Clone_def lives_in_def blob_refs_def blob_def exampleJob_def exampleMemory_def
      mkJob_def make_bytes_def copy_bytes_def new_options_def Let_def insert_commute)

section \<open>Facts about the message on the wire\<close>

lemma json_Unmarshal_RawMessage_case:
  "(case json_Unmarshal_RawMessage data of Inl err \<Rightarrow> Inl err | Inr v \<Rightarrow> Inr v) =
     json_Unmarshal_RawMessage data"
  by (simp split: sum.splits)

lemma UnmarshalJSON_plain:
  "\<not> reads_as_envelope StdEncoding v \<Longrightarrow> UnmarshalJSON StdEncoding spells (Some v) = Inr (Some v)"
  by (auto simp: reads_as_envelope_def UnmarshalJSON_def json_Unmarshal_RawMessage_def
      split: sum.splits)

lemma UnmarshalJSON_envelope:
  "json_Unmarshal_envelope StdEncoding data = Inr mm \<Longrightarrow> Type mm = ''json'' \<Longrightarrow>
   UnmarshalJSON StdEncoding spells data =
     json_Unmarshal_RawMessage (spelt spells (bytes_of (Data mm)))"
  by (simp add: UnmarshalJSON_def json_Unmarshal_RawMessage_case)

lemma equalFold_names:
  "equalFold ''Data'' ''Data''" "equalFold ''Type'' ''Type''" "\<not> equalFold ''Type'' ''Data''"
  by (simp_all add: equalFold_def lower_def)

lemma uint8_examples:
  "uint8 ''123'' = Some CHR ''{''" "uint8 ''125'' = Some CHR ''}''" "uint8 ''256'' = None"
  "uint8 ''1.5'' = None" "uint8 ''-1'' = None"
  by (simp_all add: uint8_def digit_value_def char_of_def bit_Suc_0_iff)

lemma envelope_of_legacy:
  "StdEncoding s = Some bytes \<Longrightarrow>
   json_Unmarshal_envelope StdEncoding (Some (JObject [(''Data'', JString s), (''Type'', JString ''json'')]))
     = Inr \<lparr>Data = ByteSlice bytes (length bytes), Type = ''json''\<rparr>"
  by (simp add: json_Unmarshal_envelope_def equalFold_names zero_envelope_def)

text \<open>
  Claim C6, as the code has it. For every JSON value \<open>v\<close> that does not read as the old
  representation, the message \<^verbatim>\<open>NewMessage\<close> makes of \<open>v\<close> decodes to a text of \<open>v\<close>, and
  so does any plain JSON text of \<open>v\<close>: decoding succeeds and keeps the value. An envelope
  \<^verbatim>\<open>{Data: d, Type: "json"}\<close>, with the bytes \<open>d\<close> in base64, decodes to what decoding \<open>d\<close>
  itself gives, the value or the error; so does every text that reads as the old
  representation, with the bytes its \<^verbatim>\<open>Data\<close> decodes to.
\<close>

theorem Message_round_trip:
  "(\<not> reads_as_envelope StdEncoding v \<longrightarrow>
      (case NewMessage v of
         Inl err \<Rightarrow> False
       | Inr m \<Rightarrow> UnmarshalJSON StdEncoding spells m = Inr (Some v))
    \<and> UnmarshalJSON StdEncoding spells (Some v) = Inr (Some v))
 \<and> (StdEncoding s = Some d \<longrightarrow>
      UnmarshalJSON StdEncoding spells
          (Some (JObject [(''Data'', JString s), (''Type'', JString ''json'')]))
        = json_Unmarshal_RawMessage (spelt spells (Some d)))
 \<and> (json_Unmarshal_envelope StdEncoding data = Inr mm \<and> Type mm = ''json'' \<longrightarrow>
      UnmarshalJSON StdEncoding spells data =
        json_Unmarshal_RawMessage (spelt spells (bytes_of (Data mm))))"
proof (intro conjI impI)
  assume "\<not> reads_as_envelope StdEncoding v"
  then show "case NewMessage v of Inl err \<Rightarrow> False
      | Inr m \<Rightarrow> UnmarshalJSON StdEncoding spells m = Inr (Some v)"
    by (simp add: NewMessage_def json_Marshal_def UnmarshalJSON_plain)
next
  assume "\<not> reads_as_envelope StdEncoding v"
  then show "UnmarshalJSON StdEncoding spells (Some v) = Inr (Some v)"
    by (rule UnmarshalJSON_plain)
next
  assume "StdEncoding s = Some d"
  then have "json_Unmarshal_envelope StdEncoding
      (Some (JObject [(''Data'', JString s), (''Type'', JString ''json'')]))
      = Inr \<lparr>Data = ByteSlice d (length d), Type = ''json''\<rparr>"
    by (rule envelope_of_legacy)
  from UnmarshalJSON_envelope[OF this, of spells]
  show "UnmarshalJSON StdEncoding spells
          (Some (JObject [(''Data'', JString s), (''Type'', JString ''json'')]))
        = json_Unmarshal_RawMessage (spelt spells (Some d))" by simp
next
  assume "json_Unmarshal_envelope StdEncoding data = Inr mm \<and> Type mm = ''json''"
  then show "UnmarshalJSON StdEncoding spells data =
        json_Unmarshal_RawMessage (spelt spells (bytes_of (Data mm)))"
    by (simp add: UnmarshalJSON_envelope)
qed

theorem Message_round_trip_witness:
  "\<not> reads_as_envelope exampleBase64 (JObject [(''to'', JString ''bob''), (''type'', JString ''html'')])
 \<and> UnmarshalJSON exampleBase64 exampleSpells
       (Some (JObject [(''to'', JString ''bob''), (''type'', JString ''html'')]))
     = Inr (Some (JObject [(''to'', JString ''bob''), (''type'', JString ''html'')]))
 \<and> exampleBase64 ''eyJhIjpudWxsfQ=='' = Some ''{\"a\":null}''
 \<and> UnmarshalJSON exampleBase64 exampleSpells
       (Some (JObject [(''Data'', JString ''eyJhIjpudWxsfQ==''), (''Type'', JString ''json'')]))
     = Inr (Some (JObject [(''a'', JNull)]))
 \<and> json_Unmarshal_envelope exampleBase64
       (Some (JObject [(''Data'', JArray [JNumber ''123'', JNumber ''125'']), (''Type'', JString ''json'')]))
     = Inr \<lparr>Data = ByteSlice ''{}'' 2, Type = ''json''\<rparr>
 \<and> UnmarshalJSON exampleBase64 exampleSpells
       (Some (JObject [(''Data'', JArray [JNumber ''123'', JNumber ''125'']), (''Type'', JString ''json'')]))
     = Inr (Some (JObject []))"
  using Message_round_trip[where StdEncoding = exampleBase64 and spells = exampleSpells
      and v = "JObject [(''to'', JString ''bob''), (''type'', JString ''html'')]"
      and s = "''eyJhIjpudWxsfQ==''" and d = "''{\"a\":null}''"
      and data = "Some (JObject [(''Data'', JArray [JNumber ''123'', JNumber ''125'']),
                                 (''Type'', JString ''json'')])"
      and mm = "\<lparr>Data = ByteSlice ''{}'' 2, Type = ''json''\<rparr>"]
  by (simp add: reads_as_envelope_def json_Unmarshal_envelope_def equalFold_def lower_def
      zero_envelope_def exampleBase64_def exampleSpells_def spelt_def decode_array_def
      uint8_examples json_Unmarshal_RawMessage_def)

text \<open>
  The value \<^verbatim>\<open>{"Type":"json"}\<close> is a JSON value, and it is taken for an envelope with no
  data: its message does not decode.
\<close>

theorem Message_round_trip_counterexample:
  "\<not> (case NewMessage (JObject [(''Type'', JString ''json'')]) of
         Inl err \<Rightarrow> False
       | Inr m \<Rightarrow> UnmarshalJSON exampleBase64 exampleSpells m =
           Inr (Some (JObject [(''Type'', JString ''json'')])))"
  by (simp add: NewMessage_def json_Marshal_def UnmarshalJSON_def json_Unmarshal_envelope_def
      equalFold_def lower_def zero_envelope_def json_Unmarshal_RawMessage_def spelt_def)

text \<open>
  A value that reads as an envelope with data decodes to the data, whatever the case of
  the member names and whether the data are given in base64 or as an array of bytes:
  \<^verbatim>\<open>{"type":"json","data":"e30="}\<close> and \<^verbatim>\<open>{"Data":[123,125],"Type":"json"}\<close> come back as
  \<^verbatim>\<open>{}\<close>, and \<^verbatim>\<open>{"Data":[],"Type":"json"}\<close>, an envelope with no bytes, does not decode.
\<close>

lemma Message_envelope_shaped_value_changes:
  "UnmarshalJSON exampleBase64 exampleSpells
     (Some (JObject [(''type'', JString ''json''), (''data'', JString ''e30='')]))
     = Inr (Some (JObject []))"
  by (simp add: UnmarshalJSON_def json_Unmarshal_envelope_def
      equalFold_def lower_def zero_envelope_def json_Unmarshal_RawMessage_def exampleBase64_def
      exampleSpells_def spelt_def)

lemma Message_envelope_with_byte_array:
  "reads_as_envelope StdEncoding
     (JObject [(''Data'', JArray [JNumber ''123'', JNumber ''125'']), (''Type'', JString ''json'')])"
  "UnmarshalJSON StdEncoding exampleSpells
     (Some (JObject [(''Data'', JArray [JNumber ''123'', JNumber ''125'']), (''Type'', JString ''json'')]))
     = Inr (Some (JObject []))"
  "reads_as_envelope StdEncoding (JObject [(''Data'', JArray []), (''Type'', JString ''json'')])"
  "UnmarshalJSON StdEncoding spells
     (Some (JObject [(''Data'', JArray []), (''Type'', JString ''json'')])) = Inl SyntaxError"
  by (simp_all add: reads_as_envelope_def UnmarshalJSON_def json_Unmarshal_envelope_def
      equalFold_names zero_envelope_def decode_array_def uint8_examples
      json_Unmarshal_RawMessage_def exampleSpells_def spelt_def)

end
